theory Spec2Isabelle
  imports Main
begin

section \<open>Python values of the chat client\<close>

text \<open>
  The repository is a thin client around a remote completion call. The remote call and
  the classes of its replies belong to an external library, so the model takes the remote
  call as a parameter and describes a reply by what the code probes of it: whether an
  attribute exists (\<open>hasattr\<close>), whether its value is \<open>None\<close>, the truth value of an
  object, and the value.
\<close>

text \<open>A raised \<open>Exception\<close>, by its text.\<close>

type_synonym exn = string

text \<open>
  An attribute of a reply object: \<open>Missing\<close> when the object has no such attribute,
  \<open>Null\<close> when the attribute is \<open>None\<close>, \<open>Val v\<close> otherwise.
\<close>

datatype 'a attr = Missing | Null | Val 'a

text \<open>\<open>hasattr(obj, "name")\<close>.\<close>

fun hasattr :: "'a attr \<Rightarrow> bool" where
  "hasattr Missing = False"
| "hasattr Null = True"
| "hasattr (Val v) = True"

text \<open>
  \<open>obj.name is not None\<close>. The code reads the attribute only after \<open>hasattr\<close>
  succeeded, so the value at \<open>Missing\<close> is never used.
\<close>

fun is_not_None :: "'a attr \<Rightarrow> bool" where
  "is_not_None Missing = False"
| "is_not_None Null = False"
| "is_not_None (Val v) = True"

text \<open>Truth value of an attribute that holds a list: \<open>None\<close> and \<open>[]\<close> are false.\<close>

fun truthy_list :: "'a list attr \<Rightarrow> bool" where
  "truthy_list Missing = False"
| "truthy_list Null = False"
| "truthy_list (Val []) = False"
| "truthy_list (Val (x # xs)) = True"

text \<open>Truth value of an optional string: \<open>None\<close> and \<open>""\<close> are false.\<close>

fun truthy_str :: "string option \<Rightarrow> bool" where
  "truthy_str None = False"
| "truthy_str (Some s) = (s \<noteq> [])"

text \<open>\<open>x or ""\<close> for a string attribute \<open>x\<close>.\<close>

fun or_empty :: "string attr \<Rightarrow> string" where
  "or_empty Missing = []"
| "or_empty Null = []"
| "or_empty (Val s) = (if s \<noteq> [] then s else [])"

text \<open>\<open>str(x)\<close> for an optional string: \<open>str(None)\<close> is the text \<open>None\<close>.\<close>

fun str :: "string attr \<Rightarrow> string" where
  "str (Val s) = s"
| "str Null = ''None''"
| "str Missing = ''None''"

text \<open>The value read from an attribute that exists: \<open>None\<close> stays \<open>None\<close>.\<close>

fun attr_value :: "'a attr \<Rightarrow> 'a option" where
  "attr_value (Val v) = Some v"
| "attr_value Null = None"
| "attr_value Missing = None"

subsection \<open>The shape of a reply\<close>

text \<open>
  A reply is \<open>{choices: [{message: {content}, delta: {content}}]}\<close>; a blocking reply
  carries \<open>message\<close>, a streamed chunk carries \<open>delta\<close>. Any attribute may be absent
  or \<open>None\<close>.

  Where the code writes an object as a condition (\<open>... and chunk.choices[0].delta and
  ...\<close>) Python takes its truth value, which the object's class decides: the library's
  reply objects are mappings, false when they hold no field. The model keeps the truth
  value with the object, and leaves it free.
\<close>

record payload =
  payload_truth :: bool
  content :: "string attr"

record choice =
  delta :: "payload attr"
  message :: "payload attr"

record response =
  response_truth :: bool
  choices :: "choice list attr"

text \<open>
  Truth value of an attribute that holds a message or a delta: \<open>None\<close> is false, an
  object has the truth value it carries.
\<close>

fun truthy_obj :: "payload attr \<Rightarrow> bool" where
  "truthy_obj Missing = False"
| "truthy_obj Null = False"
| "truthy_obj (Val p) = payload_truth p"

text \<open>Truth value of what a blocking call returned: \<open>None\<close> is false.\<close>

fun truthy_response :: "response option \<Rightarrow> bool" where
  "truthy_response None = False"
| "truthy_response (Some r) = response_truth r"

text \<open>
  A Python iterator over a finite stream: it stops, yields an item and goes on, or
  raises. The \<open>for\<close> loops of the code are recursions over it.
\<close>

datatype 'a iterator = StopIteration | Yield 'a "'a iterator" | Raise exn

text \<open>A run of a function that may end the process with \<open>sys.exit(code)\<close>.\<close>

datatype 'a proc = Return 'a | SysExit nat

subsection \<open>The session and the request\<close>

text \<open>
  One entry of \<open>st.session_state.messages\<close>, the dict \<open>{"role": r, "content": c}\<close>.
  The content is what the code stores there, which may be \<open>None\<close>.
\<close>

record turn =
  turn_role :: string
  turn_content :: "string option"

text \<open>A request message of the library, holding its text.\<close>

datatype api_message = UserMessage string | AssistantMessage string

text \<open>
  The call of a message class on a content, \<open>UserMessage(c)\<close> or
  \<open>AssistantMessage(c)\<close>. The library's constructor takes a string as the text of the
  message; \<open>None\<close> is not a string, is taken for a mapping of fields, and the
  construction ends with an \<open>AttributeError\<close>.
\<close>

fun construct :: "(string \<Rightarrow> api_message) \<Rightarrow> string option \<Rightarrow> exn + api_message" where
  "construct cls None = Inl ''AttributeError''"
| "construct cls (Some s) = Inr (cls s)"

text \<open>
  The remote \<open>complete\<close> operation, as the client library offers it: with
  \<open>stream=True\<close> it raises or returns an iterator of chunks, with \<open>stream=False\<close> it
  raises or returns a reply. \<open>None\<close> stands for a returned \<open>None\<close>.
\<close>

record client =
  complete_stream :: "api_message list \<Rightarrow> nat \<Rightarrow> exn + response iterator option"
  complete_block :: "api_message list \<Rightarrow> nat \<Rightarrow> exn + response option"

section \<open>Credential resolution (core.py)\<close>

type_synonym environ = "string \<rightharpoonup> string"

text \<open>
  \<open>os.environ.get("GITHUB_TOKEN") or os.environ.get("AZURE_KEY")\<close>: the first operand
  when it is true (set and not empty), the second operand otherwise, whatever it is.
\<close>

definition get_token_from_env :: "environ \<Rightarrow> string option" where
  "get_token_from_env env =
     (if truthy_str (env ''GITHUB_TOKEN'') then env ''GITHUB_TOKEN'' else env ''AZURE_KEY'')"

text \<open>
  \<open>DeepSeekChatbot.get_response\<close> of core.py hands the call to the client and lets its
  exception through.
\<close>

definition get_response_stream ::
  "client \<Rightarrow> api_message list \<Rightarrow> nat \<Rightarrow> exn + response iterator option" where
  "get_response_stream cl messages max_tokens = complete_stream cl messages max_tokens"

definition get_response_block ::
  "client \<Rightarrow> api_message list \<Rightarrow> nat \<Rightarrow> exn + response option" where
  "get_response_block cl messages max_tokens = complete_block cl messages max_tokens"

text \<open>
  \<open>DeepSeekChatbot.get_response\<close> of the older src/app.py wraps the call in
  \<open>try/except\<close>, reports the error and returns \<open>None\<close>; its token budget is fixed.
\<close>

definition get_response_stream_legacy ::
  "client \<Rightarrow> api_message list \<Rightarrow> exn + response iterator option" where
  "get_response_stream_legacy cl messages =
     (case complete_stream cl messages 1000 of
        Inl e \<Rightarrow> Inr None
      | Inr r \<Rightarrow> Inr r)"

definition get_response_block_legacy ::
  "client \<Rightarrow> api_message list \<Rightarrow> exn + response option" where
  "get_response_block_legacy cl messages =
     (case complete_block cl messages 1000 of
        Inl e \<Rightarrow> Inr None
      | Inr r \<Rightarrow> Inr r)"

section \<open>Reading a reply\<close>

text \<open>
  \<open>response.choices[0].message.content\<close> and \<open>chunk.choices[0].delta.content\<close>. The
  code reads them only behind the guards below; where a guard is false the read does not
  happen and the value here is \<open>Missing\<close>.
\<close>

definition message_content :: "response \<Rightarrow> string attr" where
  "message_content r =
     (case choices r of
        Val (c # cs) \<Rightarrow> (case message c of Val m \<Rightarrow> content m | _ \<Rightarrow> Missing)
      | _ \<Rightarrow> Missing)"

definition delta_content :: "response \<Rightarrow> string attr" where
  "delta_content chunk =
     (case choices chunk of
        Val (c # cs) \<Rightarrow> (case delta c of Val d \<Rightarrow> content d | _ \<Rightarrow> Missing)
      | _ \<Rightarrow> Missing)"

text \<open>
  The guard of the blocking branch, in app.py, cli.py and deepseek\_cli.py alike:
  \<open>hasattr(response, "choices") and response.choices and
  hasattr(response.choices[0], "message") and response.choices[0].message and
  hasattr(response.choices[0].message, "content")\<close>. The message is tested by its
  truth value.
\<close>

definition message_guard :: "response \<Rightarrow> bool" where
  "message_guard r =
     (hasattr (choices r) \<and> truthy_list (choices r) \<and>
      (case choices r of
         Val (c # cs) \<Rightarrow>
           hasattr (message c) \<and> truthy_obj (message c) \<and>
           (case message c of Val m \<Rightarrow> hasattr (content m) | _ \<Rightarrow> False)
       | _ \<Rightarrow> False))"

text \<open>
  The guard of the streaming loop of app.py, which tests the delta with
  \<open>is not None\<close>.
\<close>

definition delta_guard_app :: "response \<Rightarrow> bool" where
  "delta_guard_app chunk =
     (hasattr (choices chunk) \<and> truthy_list (choices chunk) \<and>
      (case choices chunk of
         Val (c # cs) \<Rightarrow>
           hasattr (delta c) \<and> is_not_None (delta c) \<and>
           (case delta c of Val d \<Rightarrow> hasattr (content d) | _ \<Rightarrow> False)
       | _ \<Rightarrow> False))"

text \<open>
  The guard of the streaming loop of cli.py and deepseek\_cli.py, which tests the truth
  value of the delta.
\<close>

definition delta_guard_cli :: "response \<Rightarrow> bool" where
  "delta_guard_cli chunk =
     (hasattr (choices chunk) \<and> truthy_list (choices chunk) \<and>
      (case choices chunk of
         Val (c # cs) \<Rightarrow>
           hasattr (delta c) \<and> truthy_obj (delta c) \<and>
           (case delta c of Val d \<Rightarrow> hasattr (content d) | _ \<Rightarrow> False)
       | _ \<Rightarrow> False))"

section \<open>The graphical chat (deepseek\_chatbot/app.py)\<close>

text \<open>
  One pass of the streaming loop body up to the accumulation: \<open>content = ""\<close>, then the
  guarded \<open>content = chunk.choices[0].delta.content or ""\<close>.
\<close>

definition chunk_content_app :: "response \<Rightarrow> string" where
  "chunk_content_app chunk =
     (if delta_guard_app chunk then or_empty (delta_content chunk) else [])"

text \<open>
  \<open>for chunk in response: ...; full_response += content\<close>, the accumulation outside the
  guard. \<open>Inl e\<close> is the exception the iteration raised.
\<close>

fun stream_loop_app :: "string \<Rightarrow> response iterator \<Rightarrow> exn + string" where
  "stream_loop_app full_response StopIteration = Inr full_response"
| "stream_loop_app full_response (Raise e) = Inl e"
| "stream_loop_app full_response (Yield chunk rest) =
     stream_loop_app (full_response @ chunk_content_app chunk) rest"

text \<open>The streaming branch after the call returned: lines 142 to 165.\<close>

definition stream_final_response :: "response iterator option \<Rightarrow> string option" where
  "stream_final_response response =
     (case response of
        Some it \<Rightarrow>
          (case stream_loop_app [] it of
             Inr full_response \<Rightarrow> Some full_response
           | Inl e \<Rightarrow> Some ''Error getting response from the model.'')
      | None \<Rightarrow> Some ''Error getting response from the model.'')"

text \<open>The blocking branch after the call returned: lines 169 to 184.\<close>

definition block_final_response :: "response option \<Rightarrow> string option" where
  "block_final_response response =
     (case response of
        Some r \<Rightarrow>
          (if message_guard r then attr_value (message_content r)
           else Some ''Error getting response from the model.'')
      | None \<Rightarrow> Some ''Error getting response from the model.'')"

text \<open>
  The loop that prepares the request, lines 126 to 131: a user turn becomes a
  \<open>UserMessage\<close>, an assistant turn an \<open>AssistantMessage\<close>, any other role is passed
  over. The loop ends with the exception of a constructor that fails.
\<close>

fun prepare_messages :: "api_message list \<Rightarrow> turn list \<Rightarrow> exn + api_message list" where
  "prepare_messages api_messages [] = Inr api_messages"
| "prepare_messages api_messages (msg # msgs) =
     (if turn_role msg = ''user'' then
        (case construct UserMessage (turn_content msg) of
           Inl e \<Rightarrow> Inl e
         | Inr m \<Rightarrow> prepare_messages (api_messages @ [m]) msgs)
      else if turn_role msg = ''assistant'' then
        (case construct AssistantMessage (turn_content msg) of
           Inl e \<Rightarrow> Inl e
         | Inr m \<Rightarrow> prepare_messages (api_messages @ [m]) msgs)
      else prepare_messages api_messages msgs)"

text \<open>
  The chat part of \<open>main\<close>, lines 115 to 187, for one run of the script:
  \<open>user_input\<close> is what \<open>st.chat_input\<close> returned (\<open>None\<close> when nothing was
  submitted). The result is the message list the session holds when the run ends, and the
  exception that ended it when one reached the top of the script. Neither the
  preparation of the request nor the call stands inside a \<open>try\<close>.
\<close>

definition main_chat ::
  "client \<Rightarrow> bool \<Rightarrow> nat \<Rightarrow> turn list \<Rightarrow> string option \<Rightarrow> turn list \<times> exn option" where
  "main_chat chatbot streaming_enabled max_tokens messages user_input =
     (if truthy_str user_input then
        (let messages1 = messages @ [\<lparr>turn_role = ''user'', turn_content = user_input\<rparr>]
         in case prepare_messages [] messages1 of
              Inl e \<Rightarrow> (messages1, Some e)
            | Inr api_messages \<Rightarrow>
                if streaming_enabled then
                  (case get_response_stream chatbot api_messages max_tokens of
                     Inl e \<Rightarrow> (messages1, Some e)
                   | Inr response \<Rightarrow>
                       (messages1 @ [\<lparr>turn_role = ''assistant'',
                                       turn_content = stream_final_response response\<rparr>], None))
                else
                  (case get_response_block chatbot api_messages max_tokens of
                     Inl e \<Rightarrow> (messages1, Some e)
                   | Inr response \<Rightarrow>
                       (messages1 @ [\<lparr>turn_role = ''assistant'',
                                       turn_content = block_final_response response\<rparr>], None)))
      else (messages, None))"

text \<open>
  The same part of the older src/app.py, whose body differs only in the wrapper it calls:
  there a failing call comes back as \<open>None\<close>.
\<close>

definition main_chat_legacy ::
  "client \<Rightarrow> bool \<Rightarrow> turn list \<Rightarrow> string option \<Rightarrow> turn list \<times> exn option" where
  "main_chat_legacy chatbot streaming_enabled messages user_input =
     (if truthy_str user_input then
        (let messages1 = messages @ [\<lparr>turn_role = ''user'', turn_content = user_input\<rparr>]
         in case prepare_messages [] messages1 of
              Inl e \<Rightarrow> (messages1, Some e)
            | Inr api_messages \<Rightarrow>
                if streaming_enabled then
                  (case get_response_stream_legacy chatbot api_messages of
                     Inl e \<Rightarrow> (messages1, Some e)
                   | Inr response \<Rightarrow>
                       (messages1 @ [\<lparr>turn_role = ''assistant'',
                                       turn_content = stream_final_response response\<rparr>], None))
                else
                  (case get_response_block_legacy chatbot api_messages of
                     Inl e \<Rightarrow> (messages1, Some e)
                   | Inr response \<Rightarrow>
                       (messages1 @ [\<lparr>turn_role = ''assistant'',
                                       turn_content = block_final_response response\<rparr>], None)))
      else (messages, None))"

text \<open>
  The sign-in from the environment, lines 43 to 46: the session becomes authenticated
  when the environment gives a true token.
\<close>

record session_state =
  authenticated :: bool
  session_token :: "string option"

definition env_login :: "environ \<Rightarrow> session_state \<Rightarrow> session_state" where
  "env_login env st =
     (let env_token = get_token_from_env env
      in if truthy_str env_token \<and> \<not> authenticated st
         then st\<lparr>authenticated := True, session_token := env_token\<rparr>
         else st)"

section \<open>The command line (deepseek\_chatbot/cli.py and deepseek\_cli.py)\<close>

text \<open>
  The streaming loop of both command-line files: the accumulation
  \<open>full_response += content\<close> stands inside the guard.
\<close>

fun stream_loop_cli :: "string \<Rightarrow> response iterator \<Rightarrow> exn + string" where
  "stream_loop_cli full_response StopIteration = Inr full_response"
| "stream_loop_cli full_response (Raise e) = Inl e"
| "stream_loop_cli full_response (Yield chunk rest) =
     (if delta_guard_cli chunk
      then stream_loop_cli (full_response @ or_empty (delta_content chunk)) rest
      else stream_loop_cli full_response rest)"

text \<open>
  \<open>query_deepseek\<close> of cli.py. \<open>remote token\<close> is the service as a client holding that
  token sees it. The request is the prompt alone, \<open>[UserMessage(prompt)]\<close>. In streaming
  mode the call stands inside the inner \<open>try\<close>, so its exception, and the
  \<open>TypeError\<close> of iterating \<open>None\<close>, end in \<open>return None\<close>. The blocking branch
  tests the reply by its truth value first.
\<close>

definition query_deepseek ::
  "environ \<Rightarrow> (string \<Rightarrow> client) \<Rightarrow> string \<Rightarrow> bool \<Rightarrow> string option proc" where
  "query_deepseek env remote prompt stream =
     (case get_token_from_env env of
        None \<Rightarrow> SysExit 1
      | Some token \<Rightarrow>
          if \<not> truthy_str (Some token) then SysExit 1
          else
            (let chatbot = remote token; messages = [UserMessage prompt]
             in if stream then
                  (case get_response_stream chatbot messages 1000 of
                     Inl e \<Rightarrow> Return None
                   | Inr None \<Rightarrow> Return None
                   | Inr (Some it) \<Rightarrow>
                       (case stream_loop_cli [] it of
                          Inr full_response \<Rightarrow> Return (Some full_response)
                        | Inl e \<Rightarrow> Return None))
                else
                  (case get_response_block chatbot messages 1000 of
                     Inl e \<Rightarrow> SysExit 1
                   | Inr None \<Rightarrow> Return None
                   | Inr (Some response) \<Rightarrow>
                       if truthy_response (Some response) \<and> message_guard response
                       then (if is_not_None (message_content response)
                             then Return (Some (str (message_content response)))
                             else Return None)
                       else Return None)))"




text \<open>\<open>get_credentials\<close> of deepseek\_cli.py.\<close>

definition get_credentials :: "environ \<Rightarrow> string proc" where
  "get_credentials env =
     (case (if truthy_str (env ''GITHUB_TOKEN'') then env ''GITHUB_TOKEN'' else env ''AZURE_KEY'') of
        None \<Rightarrow> SysExit 1
      | Some token \<Rightarrow> if \<not> truthy_str (Some token) then SysExit 1 else Return token)"

text \<open>
  \<open>query_deepseek\<close> of deepseek\_cli.py, which calls the client itself. Its blocking
  branch does not test the reply for \<open>None\<close> before \<open>hasattr\<close>, which is false on
  \<open>None\<close>.
\<close>

definition query_deepseek_legacy ::
  "environ \<Rightarrow> (string \<Rightarrow> client) \<Rightarrow> string \<Rightarrow> bool \<Rightarrow> string proc" where
  "query_deepseek_legacy env remote prompt stream =
     (case get_credentials env of
        SysExit n \<Rightarrow> SysExit n
      | Return token \<Rightarrow>
          (let cl = remote token; messages = [UserMessage prompt]
           in if stream then
                (case complete_stream cl messages 1000 of
                   Inl e \<Rightarrow> Return ''Error getting response from the model.''
                 | Inr None \<Rightarrow> Return ''Error getting response from the model.''
                 | Inr (Some it) \<Rightarrow>
                     (case stream_loop_cli [] it of
                        Inr full_response \<Rightarrow> Return full_response
                      | Inl e \<Rightarrow> Return ''Error getting response from the model.''))
              else
                (case complete_block cl messages 1000 of
                   Inl e \<Rightarrow> SysExit 1
                 | Inr None \<Rightarrow> Return ''No response from the model.''
                 | Inr (Some response) \<Rightarrow>
                     if message_guard response
                     then Return (str (message_content response))
                     else Return ''No response from the model.'')))"

section \<open>Vocabulary of the properties\<close>

text \<open>The exception an iteration ends with, if it ends with one.\<close>

fun raised :: "'a iterator \<Rightarrow> exn option" where
  "raised StopIteration = None"
| "raised (Raise e) = Some e"
| "raised (Yield x rest) = raised rest"


text \<open>
  A stream that yields the given items and then ends as \<open>fin\<close> says: it stops, or the
  iteration fails there.
\<close>

fun stream_of :: "'a list \<Rightarrow> 'a iterator \<Rightarrow> 'a iterator" where
  "stream_of [] fin = fin"
| "stream_of (x # xs) fin = Yield x (stream_of xs fin)"

text \<open>
  A well-formed streamed chunk and a well-formed blocking reply with a given text; their
  objects are true.
\<close>

definition text_chunk :: "string \<Rightarrow> response" where
  "text_chunk s =
     \<lparr>response_truth = True,
      choices = Val [\<lparr>delta = Val \<lparr>payload_truth = True, content = Val s\<rparr>,
                      message = Missing\<rparr>]\<rparr>"

definition text_reply :: "string \<Rightarrow> response" where
  "text_reply s =
     \<lparr>response_truth = True,
      choices = Val [\<lparr>delta = Missing,
                      message = Val \<lparr>payload_truth = True, content = Val s\<rparr>\<rparr>]\<rparr>"

text \<open>A reply or chunk with nothing but the given \<open>choices\<close> attribute.\<close>

definition with_choices :: "choice list attr \<Rightarrow> response" where
  "with_choices cs = \<lparr>response_truth = True, choices = cs\<rparr>"




text \<open>
  A blocking reply that lacks \<open>choices\<close> (absent, \<open>None\<close> or empty), the
  \<open>message\<close> of its first choice (absent or \<open>None\<close>), or the \<open>content\<close> attribute
  of that message.
\<close>

fun lacks_message :: "response \<Rightarrow> bool" where
  "lacks_message r =
     (case choices r of
        Val (c # cs) \<Rightarrow>
          (case message c of
             Val m \<Rightarrow> (case content m of Missing \<Rightarrow> True | _ \<Rightarrow> False)
           | _ \<Rightarrow> True)
      | _ \<Rightarrow> True)"


text \<open>A turn of the chat: its role is user or assistant.\<close>

definition chat_turn :: "turn \<Rightarrow> bool" where
  "chat_turn msg = (turn_role msg = ''user'' \<or> turn_role msg = ''assistant'')"

text \<open>
  A deterministic mocked remote call: whatever the request, the streaming call ends as
  \<open>s\<close> says and the blocking call as \<open>b\<close> says.
\<close>

definition mock_client ::
  "exn + response iterator option \<Rightarrow> exn + response option \<Rightarrow> client" where
  "mock_client s b = \<lparr>complete_stream = (\<lambda>messages max_tokens. s),
                      complete_block = (\<lambda>messages max_tokens. b)\<rparr>"

text \<open>The same mock as the service behind any token.\<close>

definition mock_remote ::
  "exn + response iterator option \<Rightarrow> exn + response option \<Rightarrow> string \<Rightarrow> client" where
  "mock_remote s b token = mock_client s b"



text \<open>Shorthands for the fixed fallback text, the two kinds of turn and the request.\<close>

abbreviation fallback :: string where
  "fallback \<equiv> ''Error getting response from the model.''"

abbreviation user_turn :: "string option \<Rightarrow> turn" where
  "user_turn user_input \<equiv> \<lparr>turn_role = ''user'', turn_content = user_input\<rparr>"

abbreviation assistant_turn :: "string option \<Rightarrow> turn" where
  "assistant_turn final_response \<equiv>
     \<lparr>turn_role = ''assistant'', turn_content = final_response\<rparr>"

abbreviation request_of :: "turn list \<Rightarrow> string option \<Rightarrow> exn + api_message list" where
  "request_of messages user_input \<equiv> prepare_messages [] (messages @ [user_turn user_input])"

section \<open>Basic facts about the model\<close>

lemma main_chat_no_input:
  "\<not> truthy_str user_input \<Longrightarrow>
   main_chat chatbot streaming_enabled max_tokens messages user_input = (messages, None)"
  by (simp add: main_chat_def)

lemma main_chat_request_failed:
  assumes "truthy_str user_input" and "request_of messages user_input = Inl e"
  shows "main_chat chatbot streaming_enabled max_tokens messages user_input
           = (messages @ [user_turn user_input], Some e)"
  using assms by (simp add: main_chat_def Let_def)

lemma main_chat_stream:
  assumes "truthy_str user_input" and "request_of messages user_input = Inr request"
  shows "main_chat chatbot True max_tokens messages user_input =
           (case complete_stream chatbot request max_tokens of
              Inl e \<Rightarrow> (messages @ [user_turn user_input], Some e)
            | Inr response \<Rightarrow>
                (messages @ [user_turn user_input,
                             assistant_turn (stream_final_response response)], None))"
  using assms by (simp add: main_chat_def get_response_stream_def Let_def split: sum.splits)

lemma main_chat_block:
  assumes "truthy_str user_input" and "request_of messages user_input = Inr request"
  shows "main_chat chatbot False max_tokens messages user_input =
           (case complete_block chatbot request max_tokens of
              Inl e \<Rightarrow> (messages @ [user_turn user_input], Some e)
            | Inr response \<Rightarrow>
                (messages @ [user_turn user_input,
                             assistant_turn (block_final_response response)], None))"
  using assms by (simp add: main_chat_def get_response_block_def Let_def split: sum.splits)

lemma main_chat_legacy_length:
  assumes "truthy_str user_input" and "request_of messages user_input = Inr request"
  shows "length (fst (main_chat_legacy chatbot streaming_enabled messages user_input))
           = length messages + 2
         \<and> snd (main_chat_legacy chatbot streaming_enabled messages user_input) = None"
  using assms
  by (simp add: main_chat_legacy_def get_response_stream_legacy_def
      get_response_block_legacy_def Let_def split: sum.splits)

lemma main_chat_returned_length:
  assumes "truthy_str user_input" and "request_of messages user_input = Inr request"
    and "streaming_enabled \<longrightarrow> complete_stream chatbot request max_tokens = Inr sr"
    and "\<not> streaming_enabled \<longrightarrow> complete_block chatbot request max_tokens = Inr br"
  shows "length (fst (main_chat chatbot streaming_enabled max_tokens messages user_input)) =
           length messages + 2
         \<and> snd (main_chat chatbot streaming_enabled max_tokens messages user_input) = None"
  using assms
  by (cases streaming_enabled) (simp_all add: main_chat_stream main_chat_block)


lemma main_chat_roles:
  assumes "\<forall>m \<in> set messages. chat_turn m"
  shows "\<forall>m \<in> set (fst (main_chat chatbot streaming_enabled max_tokens messages user_input)).
           chat_turn m"
  using assms
  by (auto simp: main_chat_def chat_turn_def Let_def split: sum.splits)



lemma prepare_messages_failed:
  "\<exists>m \<in> set msgs. chat_turn m \<and> turn_content m = None \<Longrightarrow>
   prepare_messages api msgs = Inl ''AttributeError''"
proof (induction msgs arbitrary: api)
  case Nil
  then show ?case by simp
next
  case (Cons msg msgs)
  then show ?case
    by (cases "turn_content msg") (auto simp: chat_turn_def)
qed

lemma raised_stream_of_Raise [simp]: "raised (stream_of xs (Raise e)) = Some e"
  by (induction xs) simp_all

lemma stream_loop_app_raised:
  "raised it = Some e \<Longrightarrow> stream_loop_app full_response it = Inl e"
  by (induction it arbitrary: full_response) simp_all

lemma stream_loop_cli_raised:
  "raised it = Some e \<Longrightarrow> stream_loop_cli full_response it = Inl e"
  by (induction it arbitrary: full_response) simp_all











lemma text_chunk_content [simp]: "chunk_content_app (text_chunk s) = s"
  by (simp add: chunk_content_app_def delta_guard_app_def delta_content_def text_chunk_def)

lemma stream_loop_app_text:
  "stream_loop_app full_response (stream_of (map text_chunk fs) StopIteration) =
     Inr (full_response @ concat fs)"
  by (induction fs arbitrary: full_response) simp_all

lemma lacks_message_guard: "lacks_message r \<Longrightarrow> \<not> message_guard r"
proof (cases "choices r")
  case (Val cs)
  assume l: "lacks_message r"
  show ?thesis
  proof (cases cs)
    case Nil
    with Val show ?thesis by (simp add: message_guard_def)
  next
    case (Cons c cs')
    show ?thesis
    proof (cases "message c")
      case m: (Val m)
      with l \<open>choices r = Val cs\<close> Cons show ?thesis
        by (cases "content m") (simp_all add: message_guard_def)
    qed (use \<open>choices r = Val cs\<close> Cons in \<open>simp_all add: message_guard_def\<close>)
  qed
qed (simp_all add: message_guard_def)

lemma mock_client_sel [simp]:
  "complete_stream (mock_client s b) messages max_tokens = s"
  "complete_block (mock_client s b) messages max_tokens = b"
  by (simp_all add: mock_client_def)

lemma mock_remote_sel [simp]:
  "complete_stream (mock_remote s b token) messages max_tokens = s"
  "complete_block (mock_remote s b token) messages max_tokens = b"
  by (simp_all add: mock_remote_def)

lemma text_reply_content [simp]:
  "block_final_response (Some (text_reply s)) = Some s"
  by (simp add: block_final_response_def message_guard_def message_content_def text_reply_def)




section \<open>The claims\<close>

subsection \<open>C1: the turn count of a submit\<close>

text \<open>
  C1. The claim: every submit of non-blank text makes the session grow by exactly two
  turns, the user's and the assistant's, whether the completion succeeds or fails.
  In deepseek\_chatbot/app.py the call \<open>chatbot.get_response\<close> stands outside any
  \<open>try\<close>, and \<open>get_response\<close> of core.py lets the client's exception through. With a
  remote call that raises, the run ends with that exception after the user turn was
  appended and before the assistant turn is: the session grew by one. The lemmas
  \<open>main_chat_returned_length\<close> and \<open>main_chat_legacy_length\<close> show the count of two
  whenever the call is made and returns, and in the older src/app.py whenever it is made.
\<close>

theorem turn_count_call_raises:
  "main_chat (mock_client (Inl ''timeout'') (Inl ''timeout'')) True 1000 [] (Some ''hi'')
     = ([user_turn (Some ''hi'')], Some ''timeout'')
   \<and> main_chat (mock_client (Inl ''timeout'') (Inl ''timeout'')) False 1000 [] (Some ''hi'')
     = ([user_turn (Some ''hi'')], Some ''timeout'')
   \<and> length (fst (main_chat (mock_client (Inl ''timeout'') (Inl ''timeout'')) True 1000 []
        (Some ''hi''))) = length ([] :: turn list) + 1"
  by (simp add: main_chat_stream main_chat_block)

subsection \<open>C2: the fallback text\<close>

text \<open>
  C2, as amended. In the graphical chat, once the request was built and the call
  returned, the committed content is the literal
  \<open>Error getting response from the model.\<close>, and the run ends without an exception,
  when the blocking call returned \<open>None\<close> or a reply that lacks \<open>choices\<close>, the
  \<open>message\<close> or its \<open>content\<close> attribute, and when the streaming call returned
  \<open>None\<close> or a stream whose iteration raises. In deepseek\_cli.py a failed stream
  returns the same literal, while a blocking reply without the fields returns the
  different literal \<open>No response from the model.\<close>. Nothing is said here about a
  \<open>None\<close> content, about a call that raises, or about a request that cannot be built.
\<close>

theorem fallback_literal_by_path:
  "(truthy_str user_input
      \<and> request_of messages user_input = Inr request
      \<and> complete_block chatbot request max_tokens = Inr br
      \<and> (br = None \<or> (\<exists>r. br = Some r \<and> lacks_message r))
    \<longrightarrow> main_chat chatbot False max_tokens messages user_input =
          (messages @ [user_turn user_input, assistant_turn (Some fallback)], None))
   \<and> (truthy_str user_input
      \<and> request_of messages user_input = Inr request
      \<and> complete_stream chatbot request max_tokens = Inr sr
      \<and> (sr = None \<or> (\<exists>it e. sr = Some it \<and> raised it = Some e))
    \<longrightarrow> main_chat chatbot True max_tokens messages user_input =
          (messages @ [user_turn user_input, assistant_turn (Some fallback)], None))
   \<and> (get_credentials env = Return token
      \<and> (complete_stream (remote token) [UserMessage prompt] 1000 = Inl e'
          \<or> complete_stream (remote token) [UserMessage prompt] 1000 = Inr None
          \<or> (\<exists>it e. complete_stream (remote token) [UserMessage prompt] 1000 = Inr (Some it)
                \<and> raised it = Some e))
    \<longrightarrow> query_deepseek_legacy env remote prompt True = Return fallback)
   \<and> (get_credentials env = Return token
      \<and> (complete_block (remote token) [UserMessage prompt] 1000 = Inr None
          \<or> (\<exists>r. complete_block (remote token) [UserMessage prompt] 1000 = Inr (Some r)
                \<and> lacks_message r))
    \<longrightarrow> query_deepseek_legacy env remote prompt False = Return ''No response from the model.'')"
proof (intro conjI impI)
  assume a: "truthy_str user_input
      \<and> request_of messages user_input = Inr request
      \<and> complete_block chatbot request max_tokens = Inr br
      \<and> (br = None \<or> (\<exists>r. br = Some r \<and> lacks_message r))"
  then have "block_final_response br = Some fallback"
    by (auto simp: block_final_response_def lacks_message_guard)
  with a show "main_chat chatbot False max_tokens messages user_input =
          (messages @ [user_turn user_input, assistant_turn (Some fallback)], None)"
    by (simp add: main_chat_block)
next
  assume a: "truthy_str user_input
      \<and> request_of messages user_input = Inr request
      \<and> complete_stream chatbot request max_tokens = Inr sr
      \<and> (sr = None \<or> (\<exists>it e. sr = Some it \<and> raised it = Some e))"
  then have "stream_final_response sr = Some fallback"
    by (auto simp: stream_final_response_def stream_loop_app_raised)
  with a show "main_chat chatbot True max_tokens messages user_input =
          (messages @ [user_turn user_input, assistant_turn (Some fallback)], None)"
    by (simp add: main_chat_stream)
next
  assume "get_credentials env = Return token
      \<and> (complete_stream (remote token) [UserMessage prompt] 1000 = Inl e'
          \<or> complete_stream (remote token) [UserMessage prompt] 1000 = Inr None
          \<or> (\<exists>it e. complete_stream (remote token) [UserMessage prompt] 1000 = Inr (Some it)
                \<and> raised it = Some e))"
  then show "query_deepseek_legacy env remote prompt True = Return fallback"
    by (auto simp: query_deepseek_legacy_def stream_loop_cli_raised)
next
  assume "get_credentials env = Return token
      \<and> (complete_block (remote token) [UserMessage prompt] 1000 = Inr None
          \<or> (\<exists>r. complete_block (remote token) [UserMessage prompt] 1000 = Inr (Some r)
                \<and> lacks_message r))"
  then show "query_deepseek_legacy env remote prompt False = Return ''No response from the model.''"
    by (auto simp: query_deepseek_legacy_def lacks_message_guard)
qed

text \<open>
  The four paths at a mock whose stream fails after one fragment and whose reply has no
  \<open>choices\<close>, in a session of two turns.
\<close>

theorem fallback_literal_by_path_witness:
  "lacks_message (with_choices Missing)
   \<and> raised (stream_of [text_chunk ''Par''] (Raise ''reset'')) = Some ''reset''
   \<and> get_credentials [''GITHUB_TOKEN'' \<mapsto> ''t''] = Return ''t''
   \<and> request_of [user_turn (Some ''a''), assistant_turn (Some ''b'')] (Some ''hi'')
       = Inr [UserMessage ''a'', AssistantMessage ''b'', UserMessage ''hi'']
   \<and> main_chat
      (mock_client (Inr (Some (stream_of [text_chunk ''Par''] (Raise ''reset''))))
         (Inr (Some (with_choices Missing))))
      False 1000 [user_turn (Some ''a''), assistant_turn (Some ''b'')] (Some ''hi'')
     = ([user_turn (Some ''a''), assistant_turn (Some ''b''), user_turn (Some ''hi''),
         assistant_turn (Some fallback)], None)
   \<and> main_chat
      (mock_client (Inr (Some (stream_of [text_chunk ''Par''] (Raise ''reset''))))
         (Inr (Some (with_choices Missing))))
      True 1000 [user_turn (Some ''a''), assistant_turn (Some ''b'')] (Some ''hi'')
     = ([user_turn (Some ''a''), assistant_turn (Some ''b''), user_turn (Some ''hi''),
         assistant_turn (Some fallback)], None)
   \<and> query_deepseek_legacy [''GITHUB_TOKEN'' \<mapsto> ''t'']
      (mock_remote (Inr (Some (stream_of [text_chunk ''Par''] (Raise ''reset''))))
         (Inr (Some (with_choices Missing))))
      ''hi'' True
     = Return fallback
   \<and> query_deepseek_legacy [''GITHUB_TOKEN'' \<mapsto> ''t'']
      (mock_remote (Inr (Some (stream_of [text_chunk ''Par''] (Raise ''reset''))))
         (Inr (Some (with_choices Missing))))
      ''hi'' False
     = Return ''No response from the model.''"
  using fallback_literal_by_path [where user_input = "Some ''hi''"
      and chatbot = "mock_client (Inr (Some (stream_of [text_chunk ''Par''] (Raise ''reset''))))
         (Inr (Some (with_choices Missing)))"
      and messages = "[user_turn (Some ''a''), assistant_turn (Some ''b'')]"
      and request = "[UserMessage ''a'', AssistantMessage ''b'', UserMessage ''hi'']"
      and max_tokens = 1000
      and br = "Some (with_choices Missing)"
      and sr = "Some (stream_of [text_chunk ''Par''] (Raise ''reset''))"
      and env = "[''GITHUB_TOKEN'' \<mapsto> ''t'']" and token = "''t''"
      and remote = "mock_remote (Inr (Some (stream_of [text_chunk ''Par''] (Raise ''reset''))))
         (Inr (Some (with_choices Missing)))"
      and prompt = "''hi''" and e' = "[]"]
  by (simp add: get_credentials_def with_choices_def)

text \<open>
  The claim as stated, one literal on every path, fails in deepseek\_cli.py: a blocking
  reply without \<open>choices\<close> comes back as \<open>No response from the model.\<close>.
\<close>

theorem fallback_literal_counterexample:
  "query_deepseek_legacy [''GITHUB_TOKEN'' \<mapsto> ''t'']
      (mock_remote (Inr None) (Inr (Some (with_choices Missing)))) ''hi'' False
     = Return ''No response from the model.''
   \<and> query_deepseek_legacy [''GITHUB_TOKEN'' \<mapsto> ''t'']
      (mock_remote (Inr None) (Inr (Some (with_choices Missing)))) ''hi'' False
     \<noteq> Return fallback"
  by (simp add: query_deepseek_legacy_def get_credentials_def message_guard_def
      with_choices_def)

subsection \<open>C3: blank input\<close>

text \<open>
  C3, as amended. A submit whose text is the empty string, or a run in which nothing was
  submitted, creates no turn: the session is unchanged and nothing is raised. The guard is
  \<open>if user_input:\<close>, the truth value of the string, so text made of spaces only is not
  blank for the code.
\<close>

theorem empty_input_no_op:
  "user_input = None \<or> user_input = Some [] \<Longrightarrow>
   main_chat chatbot streaming_enabled max_tokens messages user_input = (messages, None)"
  by (auto simp: main_chat_no_input)

text \<open>The empty string and \<open>None\<close> against a session of two turns.\<close>

theorem empty_input_no_op_witness:
  "main_chat (mock_client (Inr (Some (stream_of [text_chunk ''ok''] StopIteration))) (Inr None))
      True 1000 [user_turn (Some ''hi''), assistant_turn (Some ''ok'')] (Some [])
     = ([user_turn (Some ''hi''), assistant_turn (Some ''ok'')], None)
   \<and> main_chat (mock_client (Inr (Some (stream_of [text_chunk ''ok''] StopIteration))) (Inr None))
      False 1000 [user_turn (Some ''hi''), assistant_turn (Some ''ok'')] None
     = ([user_turn (Some ''hi''), assistant_turn (Some ''ok'')], None)"
  using empty_input_no_op [of "Some []"
      "mock_client (Inr (Some (stream_of [text_chunk ''ok''] StopIteration))) (Inr None)"
      True 1000 "[user_turn (Some ''hi''), assistant_turn (Some ''ok'')]"]
    empty_input_no_op [of None
      "mock_client (Inr (Some (stream_of [text_chunk ''ok''] StopIteration))) (Inr None)"
      False 1000 "[user_turn (Some ''hi''), assistant_turn (Some ''ok'')]"]
  by simp

text \<open>
  The claim as stated fails on whitespace: three spaces are submitted like any other text
  and the session grows.
\<close>

theorem whitespace_input_counterexample:
  "main_chat (mock_client (Inr (Some (stream_of [text_chunk ''ok''] StopIteration))) (Inr None))
      True 1000 [] (Some ''   '')
     = ([user_turn (Some ''   ''), assistant_turn (Some ''ok'')], None)
   \<and> length (fst (main_chat
        (mock_client (Inr (Some (stream_of [text_chunk ''ok''] StopIteration))) (Inr None))
        True 1000 [] (Some ''   ''))) \<noteq> length ([] :: turn list)"
  by (simp add: main_chat_stream stream_final_response_def)

subsection \<open>C4: a stream that fails midway\<close>

text \<open>
  C4. In a streaming submit whose call was made, on the request built from the session,
  and returned a stream that yields some chunks and then raises, the assistant turn
  committed to the session holds the fixed fallback literal and nothing of the text
  accumulated so far, whatever the chunks were; the user turn stands before it and the run
  ends without an exception.
\<close>

theorem stream_failure_discards_partial:
  assumes "truthy_str user_input"
    and "request_of messages user_input = Inr request"
    and "complete_stream chatbot request max_tokens
           = Inr (Some (stream_of chunks (Raise e)))"
  shows "main_chat chatbot True max_tokens messages user_input
           = (messages @ [user_turn user_input, assistant_turn (Some fallback)], None)"
proof -
  have "stream_final_response (Some (stream_of chunks (Raise e))) = Some fallback"
    by (simp add: stream_final_response_def stream_loop_app_raised)
  with assms show ?thesis
    by (simp add: main_chat_stream)
qed

text \<open>
  A stream that fails after the fragments \<open>Par\<close> and \<open>i\<close>, in a session of two turns;
  the accumulated text was \<open>Pari\<close>.
\<close>

theorem stream_failure_discards_partial_witness:
  "truthy_str (Some ''capital of France?'')
   \<and> request_of [user_turn (Some ''a''), assistant_turn (Some ''b'')] (Some ''capital of France?'')
       = Inr [UserMessage ''a'', AssistantMessage ''b'', UserMessage ''capital of France?'']
   \<and> stream_loop_app [] (stream_of [text_chunk ''Par'', text_chunk ''i''] StopIteration)
       = Inr ''Pari''
   \<and> main_chat
       (mock_client (Inr (Some (stream_of [text_chunk ''Par'', text_chunk ''i''] (Raise ''reset''))))
          (Inr None))
       True 1000 [user_turn (Some ''a''), assistant_turn (Some ''b'')] (Some ''capital of France?'')
     = ([user_turn (Some ''a''), assistant_turn (Some ''b''),
         user_turn (Some ''capital of France?''), assistant_turn (Some fallback)], None)"
  using stream_failure_discards_partial [where user_input = "Some ''capital of France?''"
      and chatbot = "mock_client
          (Inr (Some (stream_of [text_chunk ''Par'', text_chunk ''i''] (Raise ''reset''))))
          (Inr None)"
      and messages = "[user_turn (Some ''a''), assistant_turn (Some ''b'')]"
      and request = "[UserMessage ''a'', AssistantMessage ''b'', UserMessage ''capital of France?'']"
      and max_tokens = 1000
      and chunks = "[text_chunk ''Par'', text_chunk ''i'']" and e = "''reset''"]
  by simp

subsection \<open>C5: streaming and blocking give the same turn\<close>

text \<open>
  C5. Against a mocked remote call that returns the content \<open>Paris\<close> when blocking and
  the fragments \<open>Par\<close>, \<open>is\<close> when streaming, both modes commit an assistant turn
  with content \<open>Paris\<close>. In general the streaming branch commits the concatenation of
  the fragments in arrival order, which is what the blocking branch commits for a reply
  holding that text.
\<close>

theorem paris_both_modes:
  "main_chat
      (mock_client (Inr (Some (stream_of [text_chunk ''Par'', text_chunk ''is''] StopIteration)))
         (Inr (Some (text_reply ''Paris''))))
      True 1000 [] (Some ''What is the capital of France?'')
     = ([user_turn (Some ''What is the capital of France?''), assistant_turn (Some ''Paris'')], None)
   \<and> main_chat
      (mock_client (Inr (Some (stream_of [text_chunk ''Par'', text_chunk ''is''] StopIteration)))
         (Inr (Some (text_reply ''Paris''))))
      False 1000 [] (Some ''What is the capital of France?'')
     = ([user_turn (Some ''What is the capital of France?''), assistant_turn (Some ''Paris'')], None)
   \<and> stream_final_response (Some (stream_of (map text_chunk fragments) StopIteration))
     = Some (concat fragments)
   \<and> block_final_response (Some (text_reply (concat fragments))) = Some (concat fragments)"
  by (simp add: main_chat_stream main_chat_block stream_final_response_def
      stream_loop_app_text)

subsection \<open>C6: chunks with missing fields\<close>



subsection \<open>C7: the request and the history\<close>




subsection \<open>C8: which credential wins\<close>

text \<open>
  C8. \<open>GITHUB_TOKEN\<close> is looked at first and wins when it is set and not empty;
  otherwise \<open>AZURE_KEY\<close> wins when it is set and not empty. With neither variable set
  there is no credential: both command lines exit with status 1 and the sign-in from the
  environment leaves the session as it was.
\<close>

theorem credential_resolution_precedence:
  "(env ''GITHUB_TOKEN'' = Some g \<and> g \<noteq> [] \<longrightarrow> get_token_from_env env = Some g)
   \<and> ((env ''GITHUB_TOKEN'' = None \<or> env ''GITHUB_TOKEN'' = Some [])
        \<and> env ''AZURE_KEY'' = Some a \<and> a \<noteq> [] \<longrightarrow> get_token_from_env env = Some a)
   \<and> (env ''GITHUB_TOKEN'' = None \<and> env ''AZURE_KEY'' = None \<longrightarrow>
        get_token_from_env env = None
        \<and> query_deepseek env remote prompt stream = SysExit 1
        \<and> get_credentials env = SysExit 1
        \<and> query_deepseek_legacy env remote prompt stream = SysExit 1
        \<and> env_login env st = st)"
  by (cases "env ''GITHUB_TOKEN''")
     (auto simp: get_token_from_env_def query_deepseek_def get_credentials_def
      query_deepseek_legacy_def env_login_def)

text \<open>Both variables set, the first one empty, only the second set, and none set.\<close>

theorem credential_resolution_precedence_witness:
  "get_token_from_env [''GITHUB_TOKEN'' \<mapsto> ''ghp'', ''AZURE_KEY'' \<mapsto> ''az''] = Some ''ghp''
   \<and> get_token_from_env [''GITHUB_TOKEN'' \<mapsto> [], ''AZURE_KEY'' \<mapsto> ''az''] = Some ''az''
   \<and> get_token_from_env [''AZURE_KEY'' \<mapsto> ''az''] = Some ''az''
   \<and> get_token_from_env Map.empty = None
   \<and> query_deepseek Map.empty (mock_remote (Inr None) (Inr None)) ''hi'' True = SysExit 1
   \<and> query_deepseek_legacy Map.empty (mock_remote (Inr None) (Inr None)) ''hi'' True = SysExit 1
   \<and> env_login Map.empty \<lparr>authenticated = False, session_token = None\<rparr>
       = \<lparr>authenticated = False, session_token = None\<rparr>"
  using credential_resolution_precedence [where env = "[''GITHUB_TOKEN'' \<mapsto> ''ghp'', ''AZURE_KEY'' \<mapsto> ''az'']"
      and g = "''ghp''" and a = "''az''"]
    credential_resolution_precedence [where env = "[''GITHUB_TOKEN'' \<mapsto> [], ''AZURE_KEY'' \<mapsto> ''az'']"
      and g = "[]" and a = "''az''"]
    credential_resolution_precedence [where env = "[''AZURE_KEY'' \<mapsto> ''az'']"
      and g = "[]" and a = "''az''"]
    credential_resolution_precedence [where env = Map.empty and g = "[]" and a = "[]"
      and remote = "mock_remote (Inr None) (Inr None)" and prompt = "''hi''" and stream = True
      and st = "\<lparr>authenticated = False, session_token = None\<rparr>"]
  by simp

subsection \<open>C9: the two streaming loops\<close>




subsection \<open>C10: the empty token\<close>

text \<open>
  C10. \<open>get_token_from_env\<close> returns \<open>None\<close> exactly when \<open>GITHUB_TOKEN\<close> is unset
  or empty and \<open>AZURE_KEY\<close> is unset. With both variables set to the empty string it
  returns the empty string, which is not \<open>None\<close> but is false: the callers still take
  the path without a credential.
\<close>

theorem empty_token_is_not_None:
  "((get_token_from_env env = None)
      = ((env ''GITHUB_TOKEN'' = None \<or> env ''GITHUB_TOKEN'' = Some []) \<and> env ''AZURE_KEY'' = None))
   \<and> (env ''GITHUB_TOKEN'' = Some [] \<and> env ''AZURE_KEY'' = Some [] \<longrightarrow>
        get_token_from_env env = Some []
        \<and> get_token_from_env env \<noteq> None
        \<and> \<not> truthy_str (get_token_from_env env)
        \<and> query_deepseek env remote prompt stream = SysExit 1
        \<and> get_credentials env = SysExit 1
        \<and> env_login env st = st)"
  by (cases "env ''GITHUB_TOKEN''")
     (auto simp: get_token_from_env_def query_deepseek_def get_credentials_def env_login_def)

text \<open>Both variables empty; only the first, empty; none.\<close>

theorem empty_token_is_not_None_witness:
  "get_token_from_env [''GITHUB_TOKEN'' \<mapsto> [], ''AZURE_KEY'' \<mapsto> []] = Some []
   \<and> get_token_from_env [''GITHUB_TOKEN'' \<mapsto> []] = None
   \<and> get_token_from_env Map.empty = None
   \<and> query_deepseek [''GITHUB_TOKEN'' \<mapsto> [], ''AZURE_KEY'' \<mapsto> []]
        (mock_remote (Inr None) (Inr None)) ''hi'' False = SysExit 1"
  using empty_token_is_not_None [where env = "[''GITHUB_TOKEN'' \<mapsto> [], ''AZURE_KEY'' \<mapsto> []]"
      and remote = "mock_remote (Inr None) (Inr None)" and prompt = "''hi''" and stream = False]
    empty_token_is_not_None [where env = "[''GITHUB_TOKEN'' \<mapsto> []]"]
    empty_token_is_not_None [where env = "Map.empty"]
  by simp

end
